theory Spec2Isabelle
  imports Complex_Main
begin

section \<open>JavaScript values\<close>

text \<open>
  The values that cross the program's interfaces are JSON documents: the request payload,
  the parsed response body, the \<open>status\<close> property of a rejection value. A number is a
  JavaScript number; only its comparison with a literal is ever used, so it is modelled by
  its real value. An object is the list of its own properties, each name once. The
  JavaScript value \<open>undefined\<close> is \<open>None\<close> of \<open>json option\<close>.
\<close>

datatype json =
    JNull
  | JBool bool
  | JNum real
  | JStr string
  | JArr "json list"
  | JObj "(string \<times> json) list"

text \<open>Truthiness, as the operator \<open>||\<close> tests it.\<close>

fun truthy :: "json option \<Rightarrow> bool" where
  "truthy None = False"
| "truthy (Some JNull) = False"
| "truthy (Some (JBool b)) = b"
| "truthy (Some (JNum r)) = (r \<noteq> 0)"
| "truthy (Some (JStr s)) = (s \<noteq> [])"
| "truthy (Some (JArr xs)) = True"
| "truthy (Some (JObj kvs)) = True"

text \<open>The value is a string (\<open>typeof v === 'string'\<close>).\<close>

fun is_string :: "json \<Rightarrow> bool" where
  "is_string (JStr s) = True"
| "is_string v = False"

text \<open>
  Optional chaining. \<open>x?.k\<close> is \<open>undefined\<close> when \<open>x\<close> is \<open>null\<close> or \<open>undefined\<close>, and
  the property otherwise; for the property names the program reads (\<open>candidates\<close>,
  \<open>content\<close>, \<open>parts\<close>, \<open>text\<close>) only an object can have one. \<open>x?.[0]\<close> reads element 0
  of an array, the property \<open>0\<close> of an object and the first code unit of a string.
\<close>

definition opt_prop :: "json option \<Rightarrow> string \<Rightarrow> json option" where
  "opt_prop x k = (case x of Some (JObj kvs) \<Rightarrow> map_of kvs k | _ \<Rightarrow> None)"

definition opt_idx0 :: "json option \<Rightarrow> json option" where
  "opt_idx0 x =
     (case x of
        Some (JArr xs) \<Rightarrow> (case xs of [] \<Rightarrow> None | y # _ \<Rightarrow> Some y)
      | Some (JObj kvs) \<Rightarrow> map_of kvs ''0''
      | Some (JStr s) \<Rightarrow> (case s of [] \<Rightarrow> None | c # _ \<Rightarrow> Some (JStr [c]))
      | _ \<Rightarrow> None)"

text \<open>\<open>x || d\<close> for a defined default \<open>d\<close>.\<close>

definition js_or :: "json option \<Rightarrow> json \<Rightarrow> json" where
  "js_or x d = (case x of None \<Rightarrow> d | Some v \<Rightarrow> if truthy (Some v) then v else d)"

section \<open>Promises\<close>

text \<open>
  A rejection value is an error object: its message and its \<open>status\<close> property
  (\<open>None\<close> when the object has none, as for the \<open>TypeError\<close> of a failed fetch and for
  \<open>new Error(...)\<close>). A promise that settles either resolves with a value or rejects with
  an error; promises that never settle are outside the model.
\<close>

record js_error =
  message :: string
  status :: "json option"

text \<open>\<open>new Error(msg)\<close>, and every other error object without a \<open>status\<close> property.\<close>

definition plain_error :: "string \<Rightarrow> js_error" where
  "plain_error msg = \<lparr>message = msg, status = None\<rparr>"

text \<open>An error object that carries the rate-limit status.\<close>

definition rate_limited :: js_error where
  "rate_limited = \<lparr>message = ''Too Many Requests'', status = Some (JNum 429)\<rparr>"

datatype 'a outcome = Resolved 'a | Rejected js_error

section \<open>The helper \<open>backoff\<close> (App.js, lines 64 to 78)\<close>

text \<open>
  The operation \<open>fn\<close> is a closure with effects of its own: it is a function from the
  state of its world to an outcome and the next state. \<open>backoff\<close> threads that state
  through the calls and records what it does itself, in order: each call of \<open>fn\<close>, each
  \<open>setTimeout\<close> it awaits (with the delay it passes) and each \<open>console.log\<close> (with the
  number of retries it prints). The retry budget and the delay are whole numbers, and a
  wait is the delay handed to \<open>setTimeout\<close>; how long the browser then sleeps is not
  modelled. The only call in the program takes the defaults, 5 retries and 1000 ms.
\<close>

datatype bevent = Attempt | Timer int | ConsoleLog int

function backoff ::
  "('s \<Rightarrow> 'a outcome \<times> 's) \<Rightarrow> int \<Rightarrow> int \<Rightarrow> 's \<Rightarrow> 'a outcome \<times> 's \<times> bevent list" where
  "backoff fn retries delay s =
     (case fn s of
        (Resolved v, s') \<Rightarrow> (Resolved v, s', [Attempt])
      | (Rejected err, s') \<Rightarrow>
          if retries > 0 \<and> status err = Some (JNum 429) then
            (case backoff fn (retries - 1) (delay * 2) s' of
               (r, s'', t) \<Rightarrow> (r, s'', Attempt # Timer delay # ConsoleLog retries # t))
          else (Rejected err, s', [Attempt]))"
  by pat_completeness auto
termination
  by (relation "measure (\<lambda>(fn, retries, delay, s). nat retries)") auto

declare backoff.simps [simp del]

text \<open>What a trace shows: the number of calls of \<open>fn\<close>, and the delays waited, in order.\<close>

fun attempts :: "bevent list \<Rightarrow> nat" where
  "attempts [] = 0"
| "attempts (Attempt # t) = Suc (attempts t)"
| "attempts (e # t) = attempts t"

fun waits :: "bevent list \<Rightarrow> int list" where
  "waits [] = []"
| "waits (Timer d # t) = d # waits t"
| "waits (e # t) = waits t"

text \<open>The state of the operation's world after its first \<open>n\<close> calls from \<open>s\<close>.\<close>

primrec state_after :: "('s \<Rightarrow> 'a outcome \<times> 's) \<Rightarrow> nat \<Rightarrow> 's \<Rightarrow> 's" where
  "state_after fn 0 s = s"
| "state_after fn (Suc n) s = state_after fn n (snd (fn s))"

text \<open>
  From \<open>s\<close>, the operation rejects with an error of status 429 on each of its first \<open>k\<close>
  calls and resolves with \<open>v\<close> on the next.
\<close>

fun fails_then_succeeds :: "('s \<Rightarrow> 'a outcome \<times> 's) \<Rightarrow> 's \<Rightarrow> nat \<Rightarrow> 'a \<Rightarrow> bool" where
  "fails_then_succeeds fn s 0 v = (fst (fn s) = Resolved v)"
| "fails_then_succeeds fn s (Suc k) v =
     (case fn s of
        (Rejected err, s') \<Rightarrow> status err = Some (JNum 429) \<and> fails_then_succeeds fn s' k v
      | (Resolved x, s') \<Rightarrow> False)"

text \<open>From \<open>s\<close>, the operation rejects with an error of status 429 on each of its first \<open>n\<close> calls.\<close>

fun fails_429 :: "('s \<Rightarrow> 'a outcome \<times> 's) \<Rightarrow> 's \<Rightarrow> nat \<Rightarrow> bool" where
  "fails_429 fn s 0 = True"
| "fails_429 fn s (Suc n) =
     (case fn s of
        (Rejected err, s') \<Rightarrow> status err = Some (JNum 429) \<and> fails_429 fn s' n
      | (Resolved x, s') \<Rightarrow> False)"

text \<open>
  Operations to run \<open>backoff\<close> on. Their world is the number of calls made so far.
  \<open>flaky k v\<close> rejects with \<open>rate_limited\<close> on its first \<open>k\<close> calls and resolves
  with \<open>v\<close> from then on; \<open>broken err\<close> rejects with \<open>err\<close> on every call.
\<close>

definition flaky :: "nat \<Rightarrow> 'a \<Rightarrow> nat \<Rightarrow> 'a outcome \<times> nat" where
  "flaky k v n = (if n < k then Rejected rate_limited else Resolved v, Suc n)"

definition broken :: "js_error \<Rightarrow> nat \<Rightarrow> 'a outcome \<times> nat" where
  "broken err n = (Rejected err, Suc n)"

text \<open>The trace of \<open>k\<close> failed attempts, each followed by its wait and its log line.\<close>

definition retry_rounds :: "nat \<Rightarrow> int \<Rightarrow> int \<Rightarrow> bevent list" where
  "retry_rounds k retries delay =
     concat (map (\<lambda>i. [Attempt, Timer (delay * 2 ^ i), ConsoleLog (retries - int i)]) [0..<k])"

section \<open>The generation request (App.js, lines 80 to 99)\<close>

text \<open>
  Text is held as UTF-8 bytes: the accented letters of the Spanish messages are written
  as their two bytes.
\<close>

definition apiKey :: string where
  "apiKey = []"

definition apiUrl :: string where
  "apiUrl =
     ''https://generativelanguage.googleapis.com/v1beta/models/'' @
     ''gemini-2.5-flash-preview-05-20:generateContent?key='' @ apiKey"

definition instruction :: string where
  "instruction =
     ''Analyze this image. Generate a detailed, hyperrealistic image generation prompt '' @
     ''in English. The prompt should meticulously describe the camera settings (e.g., '' @
     ''camera model, lens, aperture, shutter speed, ISO), the lighting conditions '' @
     ''(e.g., natural light, studio, time of day), the color grading and color '' @
     ''palette, and the compositional elements (e.g., rule of thirds, leading lines, '' @
     ''framing). The prompt should be ready to use for an AI image generator and be '' @
     ''highly descriptive to achieve a photorealistic result.''"

definition payload :: "string \<Rightarrow> json" where
  "payload base64ImageData =
     JObj [(''contents'',
       JArr [JObj [
         (''role'', JStr ''user''),
         (''parts'', JArr [
            JObj [(''text'', JStr instruction)],
            JObj [(''inlineData'',
              JObj [(''mimeType'', JStr ''image/png''), (''data'', JStr base64ImageData)])]])]])]"

text \<open>
  The arguments of the one \<open>fetch\<close> call of the program. The body is
  \<open>JSON.stringify(payload)\<close>: the model keeps the document that is serialised.
\<close>

record request =
  url :: string
  http_method :: string
  headers :: "(string \<times> string) list"
  body :: json

definition api_request :: "string \<Rightarrow> request" where
  "api_request base64ImageData =
     \<lparr>url = apiUrl, http_method = ''POST'',
      headers = [(''Content-Type'', ''application/json'')],
      body = payload base64ImageData\<rparr>"

section \<open>The platform: \<open>fetch\<close> and the identity provider\<close>

text \<open>
  What the endpoint does with a request: it answers with an HTTP status, a status text and
  a body (\<open>None\<close> when the body is not a JSON document), or the request fails on the
  network. \<open>fetch\<close> is the browser's: its promise resolves with a \<open>Response\<close> for every
  HTTP answer, whatever the status, with \<open>ok\<close> true exactly for the statuses 200 to 299;
  it rejects, with a \<open>TypeError\<close> that has no \<open>status\<close> property, only when no answer
  arrives.
\<close>

datatype reply = Http nat string "json option" | NetworkFailure

record response =
  ok :: bool
  status :: nat
  statusText :: string
  json_body :: "json option"

definition fetch :: "reply \<Rightarrow> response outcome" where
  "fetch r =
     (case r of
        Http st txt b \<Rightarrow>
          Resolved \<lparr>ok = (200 \<le> st \<and> st \<le> 299), status = st, statusText = txt, json_body = b\<rparr>
      | NetworkFailure \<Rightarrow> Rejected (plain_error ''Failed to fetch''))"

text \<open>\<open>response.json()\<close> rejects with a \<open>SyntaxError\<close> when the body is not JSON.\<close>

definition response_json :: "response \<Rightarrow> json outcome" where
  "response_json r =
     (case json_body r of
        None \<Rightarrow> Rejected (plain_error ''Unexpected token'')
      | Some j \<Rightarrow> Resolved j)"

text \<open>
  The environment of one run of \<open>analyzeImage\<close>: how \<open>signInAnonymously\<close> settles, and
  the endpoint's answer to the \<open>n\<close>-th request of the run, counted from 0.
\<close>

record env =
  signIn :: "unit outcome"
  endpoint :: "nat \<Rightarrow> reply"

text \<open>
  The closure handed to \<open>backoff\<close>, \<open>() => fetch(apiUrl, {...})\<close>. Its world is the list
  of requests the endpoint has received in this run.
\<close>

definition fetch_call ::
  "(nat \<Rightarrow> reply) \<Rightarrow> request \<Rightarrow> request list \<Rightarrow> response outcome \<times> request list" where
  "fetch_call ep req sent = (fetch (ep (length sent)), sent @ [req])"

section \<open>The flow \<open>analyzeImage\<close> (App.js, lines 50 to 124)\<close>

definition auth_error_msg :: string where
  "auth_error_msg =
     ''Error de autenticaci'' @ [CHR 0xC3, CHR 0xB3] @ ''n. Por favor, int'' @
     [CHR 0xC3, CHR 0xA9] @ ''ntelo de nuevo.''"

definition generic_error_msg :: string where
  "generic_error_msg =
     ''Ocurri'' @ [CHR 0xC3, CHR 0xB3] @ '' un error al analizar la imagen. Int'' @
     [CHR 0xC3, CHR 0xA9] @ ''ntelo de nuevo.''"

definition fallback_prompt :: string where
  "fallback_prompt =
     ''No se pudo generar el prompt. Por favor, int'' @ [CHR 0xC3, CHR 0xA9] @
     ''ntelo de nuevo.''"

text \<open>Decimal digits of a number, as a template literal prints \<open>response.status\<close>.\<close>

fun dec :: "nat \<Rightarrow> string" where
  "dec n = (if n < 10 then [''0123456789'' ! n] else dec (n div 10) @ [''0123456789'' ! (n mod 10)])"

declare dec.simps [simp del]

definition api_error :: "response \<Rightarrow> js_error" where
  "api_error r = plain_error (''API error: '' @ dec (response.status r) @ '' '' @ statusText r)"

text \<open>Line 115: the left operand of \<open>||\<close>, and the whole expression.\<close>

definition extract_text :: "json \<Rightarrow> json option" where
  "extract_text result =
     opt_prop (opt_idx0 (opt_prop (opt_prop (opt_idx0 (opt_prop (Some result)
       ''candidates'')) ''content'') ''parts'')) ''text''"

definition generatedText :: "json \<Rightarrow> json" where
  "generatedText result = js_or (extract_text result) (JStr fallback_prompt)"

text \<open>
  The body of the \<open>try\<close> block after \<open>backoff\<close> has settled (lines 102 to 116): the value
  passed to \<open>setPrompt\<close>, or the error thrown.
\<close>

definition try_body :: "response outcome \<Rightarrow> js_error + json" where
  "try_body settled =
     (case settled of
        Rejected e \<Rightarrow> Inl e
      | Resolved resp \<Rightarrow>
          if \<not> ok resp then Inl (api_error resp)
          else (case response_json resp of
                  Rejected e \<Rightarrow> Inl e
                | Resolved result \<Rightarrow> Inr (generatedText result)))"

text \<open>
  The component's state that the flow writes, and the calls of its setters. A state holds
  whatever value is set: \<open>prompt\<close> is a JavaScript value.
\<close>

record ui =
  prompt :: json
  loading :: bool
  error :: string

datatype ui_update = SetPrompt json | SetLoading bool | SetError string

fun apply_update :: "ui \<Rightarrow> ui_update \<Rightarrow> ui" where
  "apply_update s (SetPrompt v) = s\<lparr>prompt := v\<rparr>"
| "apply_update s (SetLoading b) = s\<lparr>loading := b\<rparr>"
| "apply_update s (SetError m) = s\<lparr>error := m\<rparr>"

text \<open>
  One run of \<open>analyzeImage\<close>: the setter calls in order, the number of sign-in calls, the
  requests the endpoint received, what \<open>backoff\<close> did, and the lines of \<open>console.error\<close>.
\<close>

record run =
  updates :: "ui_update list"
  signInCalls :: nat
  requests :: "request list"
  timeline :: "bevent list"
  console_errors :: "(string \<times> js_error) list"

definition analyzeImage :: "env \<Rightarrow> string \<Rightarrow> run" where
  "analyzeImage e base64ImageData =
     (case signIn e of
        Rejected err \<Rightarrow>
          \<lparr>updates = [SetLoading True, SetError [], SetError auth_error_msg, SetLoading False],
           signInCalls = 1, requests = [], timeline = [],
           console_errors = [(''Authentication failed:'', err)]\<rparr>
      | Resolved u \<Rightarrow>
          (case backoff (fetch_call (endpoint e) (api_request base64ImageData)) 5 1000 [] of
             (settled, sent, t) \<Rightarrow>
               (case try_body settled of
                  Inr generated \<Rightarrow>
                    \<lparr>updates = [SetLoading True, SetError [], SetPrompt generated, SetLoading False],
                     signInCalls = 1, requests = sent, timeline = t, console_errors = []\<rparr>
                | Inl err \<Rightarrow>
                    \<lparr>updates =
                       [SetLoading True, SetError [], SetError generic_error_msg, SetLoading False],
                     signInCalls = 1, requests = sent, timeline = t,
                     console_errors = [(''Error al analizar la imagen:'', err)]\<rparr>)))"

text \<open>The state of the component after a run that started in \<open>s\<close>.\<close>

definition final_ui :: "ui \<Rightarrow> run \<Rightarrow> ui" where
  "final_ui s r = foldl apply_update s (updates r)"

text \<open>
  What the component renders of that state (lines 188 to 191): the error box when \<open>error\<close>
  is truthy, the prompt when \<open>!loading && prompt\<close>.
\<close>

definition shown_error :: "ui \<Rightarrow> string option" where
  "shown_error s = (if error s \<noteq> [] then Some (error s) else None)"

definition shown_prompt :: "ui \<Rightarrow> json option" where
  "shown_prompt s = (if \<not> loading s \<and> truthy (Some (prompt s)) then Some (prompt s) else None)"

text \<open>A setter call that puts an outcome before the user: a prompt, or a non-empty message.\<close>

fun is_outcome :: "ui_update \<Rightarrow> bool" where
  "is_outcome (SetPrompt v) = True"
| "is_outcome (SetError m) = (m \<noteq> [])"
| "is_outcome (SetLoading b) = False"

section \<open>Copying the prompt (App.js, lines 129 to 158)\<close>

text \<open>
  The browser's side: whether \<open>navigator.clipboard.writeText\<close> exists, how its promise
  settles, and whether \<open>document.execCommand('copy')\<close> returns (true or false) or throws.
  The function lists what it does, in order; the returned value of \<open>execCommand\<close> is
  ignored by the program.
\<close>

datatype exec_result = Returned bool | Threw js_error

record clip_env =
  hasClipboardApi :: bool
  writeText :: "unit outcome"
  execCommand :: exec_result

datatype clip_event =
    WriteText json
  | AppendTextarea json
  | SelectTextarea
  | ExecCopy
  | RemoveTextarea
  | Alert string
  | ClipConsoleError string js_error

definition copied_msg :: string where
  "copied_msg = ''Prompt copiado al portapapeles!''"

definition copy_failed_msg :: string where
  "copy_failed_msg =
     ''Error al copiar el prompt. Int'' @ [CHR 0xC3, CHR 0xA9] @ ''ntelo de nuevo.''"

definition copyToClipboardFallback :: "clip_env \<Rightarrow> json \<Rightarrow> clip_event list" where
  "copyToClipboardFallback c txt =
     [AppendTextarea txt, SelectTextarea, ExecCopy] @
     (case execCommand c of
        Returned b \<Rightarrow> [Alert copied_msg]
      | Threw err \<Rightarrow> [ClipConsoleError ''Fallback: Error al copiar:'' err, Alert copy_failed_msg]) @
     [RemoveTextarea]"

definition copyPromptToClipboard :: "clip_env \<Rightarrow> json \<Rightarrow> clip_event list" where
  "copyPromptToClipboard c p =
     (if hasClipboardApi c then
        (case writeText c of
           Resolved u \<Rightarrow> [WriteText p, Alert copied_msg]
         | Rejected err \<Rightarrow>
             WriteText p # ClipConsoleError ''Error al usar navigator.clipboard:'' err #
             copyToClipboardFallback c p)
      else copyToClipboardFallback c p)"

fun alerts :: "clip_event list \<Rightarrow> string list" where
  "alerts [] = []"
| "alerts (Alert m # es) = m # alerts es"
| "alerts (e # es) = alerts es"

text \<open>
  The primary mechanism copied: it exists and its promise resolved. The fallback mechanism
  failed in the way the program can see: \<open>execCommand\<close> threw.
\<close>

definition primary_copied :: "clip_env \<Rightarrow> bool" where
  "primary_copied c = (hasClipboardApi c \<and> writeText c = Resolved ())"

definition fallback_threw :: "clip_env \<Rightarrow> bool" where
  "fallback_threw c = (case execCommand c of Threw err \<Rightarrow> True | Returned b \<Rightarrow> False)"

section \<open>Properties of \<open>backoff\<close>\<close>

lemma backoff_resolved:
  "fn s = (Resolved v, s') \<Longrightarrow> backoff fn retries delay s = (Resolved v, s', [Attempt])"
  by (simp add: backoff.simps)

lemma backoff_retry:
  "fn s = (Rejected err, s') \<Longrightarrow> retries > 0 \<Longrightarrow> js_error.status err = Some (JNum 429) \<Longrightarrow>
   backoff fn retries delay s =
     (case backoff fn (retries - 1) (delay * 2) s' of
        (r, s'', t) \<Rightarrow> (r, s'', Attempt # Timer delay # ConsoleLog retries # t))"
  by (subst backoff.simps) simp

lemma backoff_give_up:
  "fn s = (Rejected err, s') \<Longrightarrow> \<not> (retries > 0 \<and> js_error.status err = Some (JNum 429)) \<Longrightarrow>
   backoff fn retries delay s = (Rejected err, s', [Attempt])"
  by (subst backoff.simps) auto

lemma retry_rounds_0: "retry_rounds 0 r d = []"
  by (simp add: retry_rounds_def)

lemma retry_rounds_Suc:
  "retry_rounds (Suc k) r d = Attempt # Timer d # ConsoleLog r # retry_rounds k (r - 1) (d * 2)"
proof -
  have "[0..<Suc k] = 0 # map Suc [0..<k]"
    by (simp add: upt_conv_Cons map_Suc_upt del: upt_Suc)
  then show ?thesis
    by (simp add: retry_rounds_def comp_def algebra_simps del: upt_Suc)
qed

lemma attempts_retry_rounds: "attempts (retry_rounds k r d @ t) = k + attempts t"
  by (induction k arbitrary: r d) (simp_all add: retry_rounds_0 retry_rounds_Suc)

lemma waits_retry_rounds:
  "waits (retry_rounds k r d @ t) = map (\<lambda>i. d * 2 ^ i) [0..<k] @ waits t"
proof (induction k arbitrary: r d)
  case 0
  show ?case by (simp add: retry_rounds_0)
next
  case (Suc k)
  have "[0..<Suc k] = 0 # map Suc [0..<k]"
    by (simp add: upt_conv_Cons map_Suc_upt del: upt_Suc)
  then show ?case
    by (simp add: retry_rounds_Suc Suc.IH comp_def algebra_simps del: upt_Suc)
qed

lemma sum_doubling: "sum_list (map (\<lambda>i. d * 2 ^ i) [0..<k]) = d * (2 ^ k - 1)" for d :: int
  by (induction k) (simp_all add: algebra_simps)

lemma backoff_after_failures:
  "fails_then_succeeds fn s k v \<Longrightarrow> int k \<le> retries \<Longrightarrow>
   backoff fn retries delay s =
     (Resolved v, state_after fn (Suc k) s, retry_rounds k retries delay @ [Attempt])"
proof (induction k arbitrary: s retries delay)
  case 0
  then obtain s' where "fn s = (Resolved v, s')"
    by (cases "fn s") simp
  then show ?case
    by (simp add: backoff_resolved retry_rounds_0)
next
  case (Suc k)
  from Suc.prems(1) obtain err s' where
    step: "fn s = (Rejected err, s')" and
    st: "js_error.status err = Some (JNum 429)" and
    rest: "fails_then_succeeds fn s' k v"
    by (cases "fn s") (auto split: outcome.splits)
  from Suc.prems(2) have pos: "retries > 0" and le: "int k \<le> retries - 1"
    by simp_all
  have "backoff fn retries delay s =
      (case backoff fn (retries - 1) (delay * 2) s' of
         (r, s'', t) \<Rightarrow> (r, s'', Attempt # Timer delay # ConsoleLog retries # t))"
    using step pos st by (rule backoff_retry)
  then show ?case
    by (simp add: Suc.IH [OF rest le] retry_rounds_Suc step)
qed

lemma backoff_exhausted:
  "fails_429 fn s (Suc n) \<Longrightarrow>
   backoff fn (int n) delay s =
     (fst (fn (state_after fn n s)), state_after fn (Suc n) s,
      retry_rounds n (int n) delay @ [Attempt])"
proof (induction n arbitrary: s delay)
  case 0
  then obtain err s' where "fn s = (Rejected err, s')"
    by (cases "fn s") (auto split: outcome.splits)
  then show ?case
    by (simp add: backoff_give_up retry_rounds_0)
next
  case (Suc n)
  from Suc.prems obtain err s' where
    step: "fn s = (Rejected err, s')" and
    st: "js_error.status err = Some (JNum 429)" and
    rest: "fails_429 fn s' (Suc n)"
    by (cases "fn s") (auto split: outcome.splits)
  have pos: "int (Suc n) > 0" by simp
  have eq: "int (Suc n) - 1 = int n" by simp
  have "backoff fn (int (Suc n)) delay s =
      (case backoff fn (int (Suc n) - 1) (delay * 2) s' of
         (r, s'', t) \<Rightarrow> (r, s'', Attempt # Timer delay # ConsoleLog (int (Suc n)) # t))"
    using step pos st by (rule backoff_retry)
  then show ?case
    using Suc.IH [OF rest, of "delay * 2"]
    by (simp add: eq retry_rounds_Suc step del: of_nat_Suc)
qed

lemma fails_429_last:
  "fails_429 fn s (Suc n) \<Longrightarrow>
   \<exists>err. fst (fn (state_after fn n s)) = Rejected err \<and> js_error.status err = Some (JNum 429)"
proof (induction n arbitrary: s)
  case 0
  then show ?case by (cases "fn s") (auto split: outcome.splits)
next
  case (Suc n)
  from Suc.prems obtain err s' where
    step: "fn s = (Rejected err, s')" and
    rest: "fails_429 fn s' (Suc n)"
    by (cases "fn s") (auto split: outcome.splits)
  from Suc.IH [OF rest] show ?case by (simp add: step)
qed

text \<open>
  Claim C1. An operation that rejects with a 429-status error exactly \<open>k\<close> times and then
  resolves with \<open>v\<close>, run with a retry budget of at least \<open>k\<close>: \<open>backoff\<close> resolves with
  \<open>v\<close>; the operation has been called \<open>k + 1\<close> times, one call after the other (its world
  is the one its first \<open>k + 1\<close> calls leave, and the trace is \<open>k\<close> rounds of attempt, wait
  and log line, then the attempt that succeeds); the wait before the \<open>i\<close>-th retry is the
  initial delay times \<open>2 ^ (i - 1)\<close>, so each wait is double the one before, and the waits
  sum to the initial delay times \<open>2 ^ k - 1\<close>.
\<close>

theorem backoff_retries_until_success:
  assumes "fails_then_succeeds fn s k v" and "int k \<le> retries"
  shows "\<exists>t. backoff fn retries delay s = (Resolved v, state_after fn (Suc k) s, t) \<and>
             t = retry_rounds k retries delay @ [Attempt] \<and>
             attempts t = Suc k \<and>
             waits t = map (\<lambda>i. delay * 2 ^ i) [0..<k] \<and>
             sum_list (waits t) = delay * (2 ^ k - 1)"
proof -
  let ?t = "retry_rounds k retries delay @ [Attempt]"
  have run: "backoff fn retries delay s = (Resolved v, state_after fn (Suc k) s, ?t)"
    using assms by (rule backoff_after_failures)
  have a: "attempts ?t = Suc k"
    by (simp add: attempts_retry_rounds)
  have w: "waits ?t = map (\<lambda>i. delay * 2 ^ i) [0..<k]"
    by (simp add: waits_retry_rounds)
  have "sum_list (waits ?t) = delay * (2 ^ k - 1)"
    by (simp only: w sum_doubling)
  with run a w show ?thesis by blast
qed

theorem backoff_retries_until_success_witness:
  "fails_then_succeeds (flaky 2 ''ok'') 0 2 ''ok'' \<and> int 2 \<le> 5 \<and>
   backoff (flaky 2 ''ok'') 5 1000 0 =
     (Resolved ''ok'', 3,
      [Attempt, Timer 1000, ConsoleLog 5, Attempt, Timer 2000, ConsoleLog 4, Attempt])"
proof -
  have h: "fails_then_succeeds (flaky 2 ''ok'') 0 (Suc (Suc 0)) ''ok''"
    by (simp add: flaky_def rate_limited_def)
  have le: "int (Suc (Suc 0)) \<le> 5" by simp
  from backoff_retries_until_success [OF h le, of 1000]
  have "backoff (flaky 2 ''ok'') 5 1000 0 =
     (Resolved ''ok'', 3,
      [Attempt, Timer 1000, ConsoleLog 5, Attempt, Timer 2000, ConsoleLog 4, Attempt])"
    by (simp add: flaky_def retry_rounds_def)
  with h show ?thesis by (simp add: numeral_2_eq_2)
qed

text \<open>
  Claim C2. An operation that rejects with a 429-status error on every call (on its first
  \<open>r + 1\<close> calls is enough), run with the retry budget \<open>r\<close>: \<open>backoff\<close> calls it \<open>r + 1\<close>
  times, \<open>r\<close> of them retries after waits that double from the initial delay, and rejects
  with the error of the last call. With \<open>r = 0\<close> there is the one call, and no wait.
\<close>

theorem backoff_exhausts_retries:
  assumes "0 \<le> retries" and "fails_429 fn s (Suc (nat retries))"
  shows "\<exists>err t. backoff fn retries delay s =
                   (Rejected err, state_after fn (Suc (nat retries)) s, t) \<and>
                 fst (fn (state_after fn (nat retries) s)) = Rejected err \<and>
                 t = retry_rounds (nat retries) retries delay @ [Attempt] \<and>
                 attempts t = Suc (nat retries) \<and>
                 waits t = map (\<lambda>i. delay * 2 ^ i) [0..<nat retries] \<and>
                 (retries = 0 \<longrightarrow> t = [Attempt])"
proof -
  let ?n = "nat retries"
  let ?t = "retry_rounds ?n retries delay @ [Attempt]"
  from assms(1) have r: "int ?n = retries" by simp
  from fails_429_last [OF assms(2)] obtain err where
    last: "fst (fn (state_after fn ?n s)) = Rejected err"
    by blast
  have "backoff fn (int ?n) delay s =
      (fst (fn (state_after fn ?n s)), state_after fn (Suc ?n) s,
       retry_rounds ?n (int ?n) delay @ [Attempt])"
    using assms(2) by (rule backoff_exhausted)
  then have run: "backoff fn retries delay s = (Rejected err, state_after fn (Suc ?n) s, ?t)"
    by (simp only: r last)
  have a: "attempts ?t = Suc ?n"
    by (simp add: attempts_retry_rounds)
  have w: "waits ?t = map (\<lambda>i. delay * 2 ^ i) [0..<?n]"
    by (simp add: waits_retry_rounds)
  have z: "retries = 0 \<longrightarrow> ?t = [Attempt]"
    by (simp add: retry_rounds_0)
  from run last a w z show ?thesis by blast
qed

theorem backoff_exhausts_retries_witness:
  "fails_429 (broken rate_limited :: nat \<Rightarrow> unit outcome \<times> nat) 0 (Suc (nat 2)) \<and>
   backoff (broken rate_limited :: nat \<Rightarrow> unit outcome \<times> nat) 2 1000 0 =
     (Rejected rate_limited, 3,
      [Attempt, Timer 1000, ConsoleLog 2, Attempt, Timer 2000, ConsoleLog 1, Attempt]) \<and>
   fails_429 (broken rate_limited :: nat \<Rightarrow> unit outcome \<times> nat) 0 (Suc (nat 0)) \<and>
   backoff (broken rate_limited :: nat \<Rightarrow> unit outcome \<times> nat) 0 1000 0 =
     (Rejected rate_limited, 1, [Attempt])"
proof -
  let ?op = "broken rate_limited :: nat \<Rightarrow> unit outcome \<times> nat"
  have n2: "nat 2 = Suc (Suc 0)" by simp
  have "fails_429 ?op 0 (Suc (Suc (Suc 0)))"
    by (simp add: broken_def rate_limited_def)
  then have h2: "fails_429 ?op 0 (Suc (nat 2))"
    by (simp only: n2)
  have h0: "fails_429 ?op 0 (Suc (nat 0))"
    by (simp add: broken_def rate_limited_def)
  from backoff_exhausts_retries [OF _ h2, of 1000]
  have r2: "backoff ?op 2 1000 0 =
     (Rejected rate_limited, 3,
      [Attempt, Timer 1000, ConsoleLog 2, Attempt, Timer 2000, ConsoleLog 1, Attempt])"
    by (simp add: eval_nat_numeral broken_def retry_rounds_def)
  from backoff_exhausts_retries [OF _ h0, of 1000]
  have r0: "backoff ?op 0 1000 0 = (Rejected rate_limited, 1, [Attempt])"
    by (simp add: broken_def)
  from h2 r2 h0 r0 show ?thesis by blast
qed

text \<open>
  Claim C3. When the operation rejects with an error whose status is not 429, \<open>backoff\<close>
  rejects with that error after the one call, with no wait, whatever the retry budget.
\<close>

theorem backoff_no_retry_on_other_error:
  assumes "fn s = (Rejected err, s')" and "js_error.status err \<noteq> Some (JNum 429)"
  shows "backoff fn retries delay s = (Rejected err, s', [Attempt]) \<and>
         attempts (snd (snd (backoff fn retries delay s))) = 1 \<and>
         waits (snd (snd (backoff fn retries delay s))) = []"
proof -
  from assms(2) have "\<not> (retries > 0 \<and> js_error.status err = Some (JNum 429))"
    by simp
  with assms(1) have "backoff fn retries delay s = (Rejected err, s', [Attempt])"
    by (rule backoff_give_up)
  then show ?thesis by simp
qed

theorem backoff_no_retry_on_other_error_witness:
  "broken (plain_error ''boom'') (0::nat) = (Rejected (plain_error ''boom'') :: unit outcome, 1) \<and>
   js_error.status (plain_error ''boom'') \<noteq> Some (JNum 429) \<and>
   backoff (broken (plain_error ''boom'') :: nat \<Rightarrow> unit outcome \<times> nat) 5 1000 0 =
     (Rejected (plain_error ''boom''), 1, [Attempt])"
proof -
  let ?op = "broken (plain_error ''boom'') :: nat \<Rightarrow> unit outcome \<times> nat"
  have c: "?op 0 = (Rejected (plain_error ''boom''), 1)"
    by (simp add: broken_def)
  have st: "js_error.status (plain_error ''boom'') \<noteq> Some (JNum 429)"
    by (simp add: plain_error_def)
  from backoff_no_retry_on_other_error [of ?op 0 "plain_error ''boom''" 1 5 1000, OF c st] c st
  show ?thesis by simp
qed

section \<open>Properties of the flow\<close>

text \<open>
  \<open>fetch\<close> never rejects with a \<open>status\<close>, so the guard of \<open>backoff\<close> is false for every
  rejection it can see in this program: the flow sends one request and never waits.
\<close>

lemma fetch_rejects_without_status:
  "fetch r = Rejected err \<Longrightarrow> js_error.status err = None"
  by (cases r) (auto simp: fetch_def plain_error_def)

lemma backoff_fetch_once:
  "backoff (fetch_call ep req) retries delay [] = (fetch (ep 0), [req], [Attempt])"
proof (cases "fetch (ep 0)")
  case (Resolved resp)
  then have "fetch_call ep req [] = (Resolved resp, [req])"
    by (simp add: fetch_call_def)
  then have "backoff (fetch_call ep req) retries delay [] = (Resolved resp, [req], [Attempt])"
    by (rule backoff_resolved)
  with Resolved show ?thesis by simp
next
  case (Rejected err)
  then have step: "fetch_call ep req [] = (Rejected err, [req])"
    by (simp add: fetch_call_def)
  from Rejected have "js_error.status err = None"
    by (rule fetch_rejects_without_status)
  then have "\<not> (retries > 0 \<and> js_error.status err = Some (JNum 429))"
    by simp
  with step have "backoff (fetch_call ep req) retries delay [] = (Rejected err, [req], [Attempt])"
    by (rule backoff_give_up)
  with Rejected show ?thesis by simp
qed

lemma analyzeImage_auth_failed:
  "signIn e = Rejected err \<Longrightarrow>
   analyzeImage e img =
     \<lparr>updates = [SetLoading True, SetError [], SetError auth_error_msg, SetLoading False],
      signInCalls = 1, requests = [], timeline = [],
      console_errors = [(''Authentication failed:'', err)]\<rparr>"
  by (simp add: analyzeImage_def)

lemma analyzeImage_generated:
  "signIn e = Resolved u \<Longrightarrow> try_body (fetch (endpoint e 0)) = Inr generated \<Longrightarrow>
   analyzeImage e img =
     \<lparr>updates = [SetLoading True, SetError [], SetPrompt generated, SetLoading False],
      signInCalls = 1, requests = [api_request img], timeline = [Attempt],
      console_errors = []\<rparr>"
  by (simp add: analyzeImage_def backoff_fetch_once)

lemma analyzeImage_api_failed:
  "signIn e = Resolved u \<Longrightarrow> try_body (fetch (endpoint e 0)) = Inl err \<Longrightarrow>
   analyzeImage e img =
     \<lparr>updates = [SetLoading True, SetError [], SetError generic_error_msg, SetLoading False],
      signInCalls = 1, requests = [api_request img], timeline = [Attempt],
      console_errors = [(''Error al analizar la imagen:'', err)]\<rparr>"
  by (simp add: analyzeImage_def backoff_fetch_once)

lemma try_body_http_ok:
  "200 \<le> st \<Longrightarrow> st \<le> 299 \<Longrightarrow>
   try_body (fetch (Http st txt (Some result))) = Inr (generatedText result)"
  by (simp add: try_body_def fetch_def response_json_def)

lemma try_body_http_not_ok:
  "\<not> (200 \<le> st \<and> st \<le> 299) \<Longrightarrow>
   try_body (fetch (Http st txt b)) = Inl (plain_error (''API error: '' @ dec st @ '' '' @ txt))"
  by (simp add: try_body_def fetch_def api_error_def)

lemma truthy_generatedText: "truthy (Some (generatedText result))"
  by (simp add: generatedText_def js_or_def fallback_prompt_def split: option.splits)

lemma try_body_truthy: "try_body settled = Inr v \<Longrightarrow> truthy (Some v)"
  by (auto simp: try_body_def truthy_generatedText split: outcome.splits if_splits)

lemma auth_error_msg_nonempty: "auth_error_msg \<noteq> []"
  by (simp add: auth_error_msg_def)

lemma generic_error_msg_nonempty: "generic_error_msg \<noteq> []"
  by (simp add: generic_error_msg_def)

lemma dec_429: "dec 429 = ''429''"
  by (simp add: dec.simps)

lemma try_body_generated:
  "try_body (fetch r) = Inr v \<Longrightarrow>
   \<exists>st txt result. r = Http st txt (Some result) \<and> v = generatedText result"
  by (cases r)
    (auto simp: try_body_def fetch_def response_json_def split: if_splits option.splits)

lemma generatedText_cases:
  "generatedText result = JStr fallback_prompt \<or>
   extract_text result = Some (generatedText result)"
  by (cases "extract_text result") (simp_all add: generatedText_def js_or_def)

lemma updates_cases:
  "updates (analyzeImage e img) =
     [SetLoading True, SetError [], SetError auth_error_msg, SetLoading False] \<or>
   updates (analyzeImage e img) =
     [SetLoading True, SetError [], SetError generic_error_msg, SetLoading False] \<or>
   (\<exists>v. truthy (Some v) \<and>
        (v = JStr fallback_prompt \<or>
         (\<exists>st txt result. endpoint e 0 = Http st txt (Some result) \<and>
            extract_text result = Some v)) \<and>
        updates (analyzeImage e img) =
          [SetLoading True, SetError [], SetPrompt v, SetLoading False])"
proof (cases "signIn e")
  case (Rejected err)
  then show ?thesis by (simp add: analyzeImage_auth_failed)
next
  case (Resolved u)
  show ?thesis
  proof (cases "try_body (fetch (endpoint e 0))")
    case (Inl err)
    with Resolved show ?thesis by (simp add: analyzeImage_api_failed)
  next
    case (Inr v)
    then have t: "truthy (Some v)" by (rule try_body_truthy)
    from Inr obtain st reason result where
      r: "endpoint e 0 = Http st reason (Some result)" and v: "v = generatedText result"
      using try_body_generated by blast
    from generatedText_cases [of result] v
    have "v = JStr fallback_prompt \<or> extract_text result = Some v"
      by simp
    with r have
      "v = JStr fallback_prompt \<or>
       (\<exists>st txt result. endpoint e 0 = Http st txt (Some result) \<and>
          extract_text result = Some v)"
      by blast
    with Resolved Inr t show ?thesis by (simp add: analyzeImage_generated)
  qed
qed

text \<open>
  Claim C8, as the code has it. Every run of the flow whose promises settle (sign-in
  failure, failure of the request or of its answer, success) ends with
  \<open>setLoading(false)\<close>, so the loading flag is false, and sets exactly one outcome: either
  one of the two error messages, shown with the prompt left as it was, or a prompt, shown
  with no error message. The prompt is a truthy value: the literal fallback string, or
  the value the answer holds at \<open>candidates[0].content.parts[0].text\<close>, whatever its type.
\<close>

theorem flow_ends_idle_with_one_outcome:
  "loading (final_ui s (analyzeImage e img)) = False \<and>
   last (updates (analyzeImage e img)) = SetLoading False \<and>
   length (filter is_outcome (updates (analyzeImage e img))) = 1 \<and>
   (error (final_ui s (analyzeImage e img)) = [] \<and>
      truthy (Some (prompt (final_ui s (analyzeImage e img)))) \<and>
      (prompt (final_ui s (analyzeImage e img)) = JStr fallback_prompt \<or>
       (\<exists>st txt result. endpoint e 0 = Http st txt (Some result) \<and>
          extract_text result = Some (prompt (final_ui s (analyzeImage e img))))) \<and>
      shown_error (final_ui s (analyzeImage e img)) = None \<and>
      shown_prompt (final_ui s (analyzeImage e img)) =
        Some (prompt (final_ui s (analyzeImage e img)))
    \<or>
    (error (final_ui s (analyzeImage e img)) = auth_error_msg \<or>
       error (final_ui s (analyzeImage e img)) = generic_error_msg) \<and>
      shown_error (final_ui s (analyzeImage e img)) =
        Some (error (final_ui s (analyzeImage e img))) \<and>
      prompt (final_ui s (analyzeImage e img)) = prompt s)"
proof -
  consider
    (auth) "updates (analyzeImage e img) =
       [SetLoading True, SetError [], SetError auth_error_msg, SetLoading False]"
  | (api) "updates (analyzeImage e img) =
       [SetLoading True, SetError [], SetError generic_error_msg, SetLoading False]"
  | (ok) v where "truthy (Some v)"
      "v = JStr fallback_prompt \<or>
       (\<exists>st txt result. endpoint e 0 = Http st txt (Some result) \<and>
          extract_text result = Some v)"
      "updates (analyzeImage e img) =
         [SetLoading True, SetError [], SetPrompt v, SetLoading False]"
    using updates_cases [of e img] by blast
  then show ?thesis
  proof cases
    case auth
    then show ?thesis
      by (simp add: final_ui_def shown_error_def auth_error_msg_nonempty)
  next
    case api
    then show ?thesis
      by (simp add: final_ui_def shown_error_def generic_error_msg_nonempty)
  next
    case ok
    then show ?thesis
      by (simp add: final_ui_def shown_error_def shown_prompt_def)
  qed
qed

text \<open>
  Claim C8 as it is worded fails: the prompt that is set need not be a string. When the
  answer holds the number 42 at \<open>candidates[0].content.parts[0].text\<close>, line 115 keeps it
  (it is truthy) and line 116 sets it as the prompt.
\<close>

theorem prompt_outcome_not_a_string:
  "prompt (final_ui \<lparr>prompt = JStr [], loading = False, error = []\<rparr>
     (analyzeImage
        \<lparr>signIn = Resolved (),
         endpoint = (\<lambda>n. Http 200 ''OK'' (Some (JObj [(''candidates'',
           JArr [JObj [(''content'',
             JObj [(''parts'', JArr [JObj [(''text'', JNum 42)]])])]])])))\<rparr>
        ''aGk='')) = JNum 42 \<and>
   \<not> is_string (prompt (final_ui \<lparr>prompt = JStr [], loading = False, error = []\<rparr>
     (analyzeImage
        \<lparr>signIn = Resolved (),
         endpoint = (\<lambda>n. Http 200 ''OK'' (Some (JObj [(''candidates'',
           JArr [JObj [(''content'',
             JObj [(''parts'', JArr [JObj [(''text'', JNum 42)]])])]])])))\<rparr>
        ''aGk=''))) \<and>
   filter is_outcome (updates
     (analyzeImage
        \<lparr>signIn = Resolved (),
         endpoint = (\<lambda>n. Http 200 ''OK'' (Some (JObj [(''candidates'',
           JArr [JObj [(''content'',
             JObj [(''parts'', JArr [JObj [(''text'', JNum 42)]])])]])])))\<rparr>
        ''aGk='')) = [SetPrompt (JNum 42)]"
proof -
  let ?body = "JObj [(''candidates'',
     JArr [JObj [(''content'', JObj [(''parts'', JArr [JObj [(''text'', JNum 42)]])])]])]"
  let ?e = "\<lparr>signIn = Resolved (), endpoint = (\<lambda>n. Http 200 ''OK'' (Some ?body))\<rparr>"
  have a: "signIn ?e = Resolved ()" by simp
  have "generatedText ?body = JNum 42"
    by (simp add: generatedText_def js_or_def extract_text_def opt_prop_def opt_idx0_def)
  then have b: "try_body (fetch (endpoint ?e 0)) = Inr (JNum 42)"
    by (simp add: try_body_http_ok)
  show ?thesis
    by (simp add: analyzeImage_generated [OF a b] final_ui_def)
qed

text \<open>
  Claim C5. When the anonymous sign-in fails, the message shown is the
  authentication-error string, no request reaches the generation endpoint, and the sign-in
  has been called once.
\<close>

theorem auth_failure_aborts:
  assumes "signIn e = Rejected err"
  shows "error (final_ui s (analyzeImage e img)) = auth_error_msg \<and>
         shown_error (final_ui s (analyzeImage e img)) = Some auth_error_msg \<and>
         loading (final_ui s (analyzeImage e img)) = False \<and>
         requests (analyzeImage e img) = [] \<and>
         timeline (analyzeImage e img) = [] \<and>
         signInCalls (analyzeImage e img) = 1"
  by (simp add: analyzeImage_auth_failed [OF assms] final_ui_def shown_error_def
      auth_error_msg_nonempty)

theorem auth_failure_aborts_witness:
  "signIn \<lparr>signIn = Rejected (plain_error ''auth/network-request-failed''),
            endpoint = (\<lambda>n. Http 200 ''OK'' None)\<rparr> =
     Rejected (plain_error ''auth/network-request-failed'') \<and>
   error (final_ui \<lparr>prompt = JStr [], loading = False, error = []\<rparr>
     (analyzeImage \<lparr>signIn = Rejected (plain_error ''auth/network-request-failed''),
                    endpoint = (\<lambda>n. Http 200 ''OK'' None)\<rparr> ''aGk='')) = auth_error_msg \<and>
   requests (analyzeImage \<lparr>signIn = Rejected (plain_error ''auth/network-request-failed''),
                    endpoint = (\<lambda>n. Http 200 ''OK'' None)\<rparr> ''aGk='') = [] \<and>
   signInCalls (analyzeImage \<lparr>signIn = Rejected (plain_error ''auth/network-request-failed''),
                    endpoint = (\<lambda>n. Http 200 ''OK'' None)\<rparr> ''aGk='') = 1"
proof -
  let ?e = "\<lparr>signIn = Rejected (plain_error ''auth/network-request-failed''),
             endpoint = (\<lambda>n. Http 200 ''OK'' None)\<rparr>"
  have h: "signIn ?e = Rejected (plain_error ''auth/network-request-failed'')"
    by simp
  from auth_failure_aborts [OF h, of "\<lparr>prompt = JStr [], loading = False, error = []\<rparr>" "''aGk=''"] h
  show ?thesis by simp
qed

text \<open>
  Claim C4, on the code. When the endpoint answers every request with HTTP 429, the flow
  sends one request and waits for no timer: \<open>fetch\<close> resolves with the 429 response,
  \<open>backoff\<close> resolves with it at once, and the check of \<open>response.ok\<close> throws outside
  \<open>backoff\<close>. The message shown is the generic failure string. The claim's six calls and
  five retries do not happen.
\<close>

theorem http_429_is_not_retried:
  "requests (analyzeImage \<lparr>signIn = Resolved (), endpoint = (\<lambda>n. Http 429 txt b)\<rparr> img) =
     [api_request img] \<and>
   timeline (analyzeImage \<lparr>signIn = Resolved (), endpoint = (\<lambda>n. Http 429 txt b)\<rparr> img) =
     [Attempt] \<and>
   waits (timeline
     (analyzeImage \<lparr>signIn = Resolved (), endpoint = (\<lambda>n. Http 429 txt b)\<rparr> img)) = [] \<and>
   console_errors
     (analyzeImage \<lparr>signIn = Resolved (), endpoint = (\<lambda>n. Http 429 txt b)\<rparr> img) =
     [(''Error al analizar la imagen:'', plain_error (''API error: 429 '' @ txt))] \<and>
   error (final_ui s
     (analyzeImage \<lparr>signIn = Resolved (), endpoint = (\<lambda>n. Http 429 txt b)\<rparr> img)) =
     generic_error_msg"
proof -
  let ?e = "\<lparr>signIn = Resolved (), endpoint = (\<lambda>n. Http 429 txt b)\<rparr>"
  have s: "signIn ?e = Resolved ()" by simp
  have "try_body (fetch (Http 429 txt b)) =
      Inl (plain_error (''API error: '' @ dec 429 @ '' '' @ txt))"
    by (rule try_body_http_not_ok) simp
  then have t: "try_body (fetch (endpoint ?e 0)) = Inl (plain_error (''API error: 429 '' @ txt))"
    by (simp add: dec_429)
  show ?thesis
    by (simp add: analyzeImage_api_failed [OF s t] final_ui_def)
qed

lemma analyzeImage_never_retries:
  "length (requests (analyzeImage e img)) \<le> 1 \<and> waits (timeline (analyzeImage e img)) = []"
  by (cases "signIn e"; cases "try_body (fetch (endpoint e 0))")
    (simp_all add: analyzeImage_auth_failed analyzeImage_api_failed analyzeImage_generated)

lemma fallback_shown:
  assumes "signIn e = Resolved u" and "endpoint e 0 = Http 200 txt (Some result)"
    and "\<not> truthy (extract_text result)"
  shows "analyzeImage e img =
     \<lparr>updates = [SetLoading True, SetError [], SetPrompt (JStr fallback_prompt), SetLoading False],
      signInCalls = 1, requests = [api_request img], timeline = [Attempt],
      console_errors = []\<rparr>"
proof -
  from assms(3) have "generatedText result = JStr fallback_prompt"
    by (cases "extract_text result") (simp_all add: generatedText_def js_or_def)
  then have "try_body (fetch (endpoint e 0)) = Inr (JStr fallback_prompt)"
    by (simp add: assms(2) try_body_http_ok)
  with assms(1) show ?thesis by (rule analyzeImage_generated)
qed

lemma fallback_prompt_nonempty: "fallback_prompt \<noteq> []"
  by (simp add: fallback_prompt_def)

text \<open>
  Claim C6. When the endpoint answers HTTP 200 with a JSON body in which
  \<open>candidates[0].content.parts[0].text\<close> is absent (the chain of line 115 yields
  \<open>undefined\<close>), the prompt shown is the literal fallback string; no error message is set
  and nothing is logged as an error.
\<close>

theorem missing_text_gives_fallback:
  assumes "signIn e = Resolved u" and "endpoint e 0 = Http 200 txt (Some result)"
    and "extract_text result = None"
  shows "prompt (final_ui s (analyzeImage e img)) = JStr fallback_prompt \<and>
         shown_prompt (final_ui s (analyzeImage e img)) = Some (JStr fallback_prompt) \<and>
         error (final_ui s (analyzeImage e img)) = [] \<and>
         shown_error (final_ui s (analyzeImage e img)) = None \<and>
         console_errors (analyzeImage e img) = []"
proof -
  from assms(3) have "\<not> truthy (extract_text result)" by simp
  with assms(1,2) have "analyzeImage e img =
     \<lparr>updates = [SetLoading True, SetError [], SetPrompt (JStr fallback_prompt), SetLoading False],
      signInCalls = 1, requests = [api_request img], timeline = [Attempt],
      console_errors = []\<rparr>"
    by (rule fallback_shown)
  then show ?thesis
    by (simp add: final_ui_def shown_prompt_def shown_error_def fallback_prompt_nonempty)
qed

theorem missing_text_gives_fallback_witness:
  "extract_text (JObj [(''candidates'', JArr [])]) = None \<and>
   prompt (final_ui \<lparr>prompt = JStr [], loading = False, error = []\<rparr>
     (analyzeImage
        \<lparr>signIn = Resolved (),
         endpoint = (\<lambda>n. Http 200 ''OK'' (Some (JObj [(''candidates'', JArr [])])))\<rparr>
        ''aGk='')) = JStr fallback_prompt \<and>
   error (final_ui \<lparr>prompt = JStr [], loading = False, error = []\<rparr>
     (analyzeImage
        \<lparr>signIn = Resolved (),
         endpoint = (\<lambda>n. Http 200 ''OK'' (Some (JObj [(''candidates'', JArr [])])))\<rparr>
        ''aGk='')) = []"
proof -
  let ?body = "JObj [(''candidates'', JArr [])]"
  let ?e = "\<lparr>signIn = Resolved (), endpoint = (\<lambda>n. Http 200 ''OK'' (Some ?body))\<rparr>"
  have a: "signIn ?e = Resolved ()" by simp
  have b: "endpoint ?e 0 = Http 200 ''OK'' (Some ?body)" by simp
  have c: "extract_text ?body = None"
    by (simp add: extract_text_def opt_prop_def opt_idx0_def)
  from missing_text_gives_fallback
    [OF a b c, of "\<lparr>prompt = JStr [], loading = False, error = []\<rparr>" "''aGk=''"] c
  show ?thesis by simp
qed

text \<open>
  Claim C10. When the endpoint answers HTTP 200 and the field
  \<open>candidates[0].content.parts[0].text\<close> is present with a falsy value, the empty string
  among them, the prompt shown is the literal fallback string, not the empty string.
\<close>

theorem falsy_text_gives_fallback:
  assumes "signIn e = Resolved u" and "endpoint e 0 = Http 200 txt (Some result)"
    and "extract_text result = Some v" and "\<not> truthy (Some v)"
  shows "prompt (final_ui s (analyzeImage e img)) = JStr fallback_prompt \<and>
         prompt (final_ui s (analyzeImage e img)) \<noteq> JStr [] \<and>
         shown_prompt (final_ui s (analyzeImage e img)) = Some (JStr fallback_prompt) \<and>
         error (final_ui s (analyzeImage e img)) = []"
proof -
  from assms(3,4) have "\<not> truthy (extract_text result)" by simp
  with assms(1,2) have "analyzeImage e img =
     \<lparr>updates = [SetLoading True, SetError [], SetPrompt (JStr fallback_prompt), SetLoading False],
      signInCalls = 1, requests = [api_request img], timeline = [Attempt],
      console_errors = []\<rparr>"
    by (rule fallback_shown)
  then show ?thesis
    by (simp add: final_ui_def shown_prompt_def fallback_prompt_nonempty)
qed

theorem falsy_text_gives_fallback_witness:
  "extract_text (JObj [(''candidates'',
     JArr [JObj [(''content'', JObj [(''parts'', JArr [JObj [(''text'', JStr [])]])])]])]) =
     Some (JStr []) \<and>
   \<not> truthy (Some (JStr [])) \<and>
   prompt (final_ui \<lparr>prompt = JStr [], loading = False, error = []\<rparr>
     (analyzeImage
        \<lparr>signIn = Resolved (),
         endpoint = (\<lambda>n. Http 200 ''OK'' (Some (JObj [(''candidates'',
           JArr [JObj [(''content'',
             JObj [(''parts'', JArr [JObj [(''text'', JStr [])]])])]])])))\<rparr>
        ''aGk='')) = JStr fallback_prompt"
proof -
  let ?body = "JObj [(''candidates'',
     JArr [JObj [(''content'', JObj [(''parts'', JArr [JObj [(''text'', JStr [])]])])]])]"
  let ?e = "\<lparr>signIn = Resolved (), endpoint = (\<lambda>n. Http 200 ''OK'' (Some ?body))\<rparr>"
  have a: "signIn ?e = Resolved ()" by simp
  have b: "endpoint ?e 0 = Http 200 ''OK'' (Some ?body)" by simp
  have c: "extract_text ?body = Some (JStr [])"
    by (simp add: extract_text_def opt_prop_def opt_idx0_def)
  have d: "\<not> truthy (Some (JStr []))" by simp
  from falsy_text_gives_fallback
    [OF a b c d, of "\<lparr>prompt = JStr [], loading = False, error = []\<rparr>" "''aGk=''"] c
  show ?thesis by simp
qed

text \<open>
  Claim C7. For every base64 string, the request sent to the generation endpoint goes to
  \<open>apiUrl\<close> and carries the payload: an object whose \<open>contents\<close> has a single entry, of
  role \<open>user\<close>, whose parts are the fixed instruction text and then an \<open>inlineData\<close> part
  of MIME type \<open>image/png\<close> with the given string as data.
\<close>

theorem request_carries_instruction_and_image:
  assumes "signIn e = Resolved u"
  shows "requests (analyzeImage e img) = [api_request img] \<and>
         url (api_request img) = apiUrl \<and>
         body (api_request img) = payload img \<and>
         (\<exists>entry. payload img = JObj [(''contents'', JArr [entry])] \<and>
            opt_prop (Some entry) ''role'' = Some (JStr ''user'') \<and>
            opt_prop (Some entry) ''parts'' =
              Some (JArr [JObj [(''text'', JStr instruction)],
                          JObj [(''inlineData'',
                            JObj [(''mimeType'', JStr ''image/png''), (''data'', JStr img)])]]))"
proof -
  have "requests (analyzeImage e img) = [api_request img]"
    using assms
    by (cases "try_body (fetch (endpoint e 0))")
      (simp_all add: analyzeImage_api_failed analyzeImage_generated)
  then show ?thesis
    by (simp add: api_request_def payload_def opt_prop_def)
qed

theorem request_carries_instruction_and_image_witness:
  "signIn \<lparr>signIn = Resolved (), endpoint = (\<lambda>n. NetworkFailure)\<rparr> = Resolved () \<and>
   map body (requests
     (analyzeImage \<lparr>signIn = Resolved (), endpoint = (\<lambda>n. NetworkFailure)\<rparr> ''aGk='')) =
   [JObj [(''contents'',
      JArr [JObj [
        (''role'', JStr ''user''),
        (''parts'', JArr [
           JObj [(''text'', JStr instruction)],
           JObj [(''inlineData'',
             JObj [(''mimeType'', JStr ''image/png''), (''data'', JStr ''aGk='')])]])]])]]"
proof -
  let ?e = "\<lparr>signIn = Resolved (), endpoint = (\<lambda>n. NetworkFailure)\<rparr>"
  have a: "signIn ?e = Resolved ()" by simp
  from request_carries_instruction_and_image [OF a, of "''aGk=''"]
  show ?thesis by (simp add: payload_def)
qed

section \<open>Properties of the clipboard copy\<close>

lemma alerts_fallback:
  "alerts (copyToClipboardFallback c p) =
     [if fallback_threw c then copy_failed_msg else copied_msg]"
  by (simp add: copyToClipboardFallback_def fallback_threw_def split: exec_result.splits)

lemma copy_msgs_differ: "copied_msg \<noteq> copy_failed_msg"
  by (simp add: copied_msg_def copy_failed_msg_def)

text \<open>
  Claim C9. Copying, once the promise of \<open>writeText\<close> has settled, has raised exactly one
  alert, the success confirmation or the failure notification. The failure notification is raised exactly when the primary
  mechanism did not copy (it is missing, or its promise rejected) and the fallback threw;
  the confirmation is raised when the primary mechanism copied or the fallback ran without
  throwing.
\<close>

theorem copy_always_notifies:
  "(alerts (copyPromptToClipboard c p) = [copied_msg] \<or>
    alerts (copyPromptToClipboard c p) = [copy_failed_msg]) \<and>
   (alerts (copyPromptToClipboard c p) = [copy_failed_msg]) =
     (\<not> primary_copied c \<and> fallback_threw c) \<and>
   (alerts (copyPromptToClipboard c p) = [copied_msg]) =
     (primary_copied c \<or> \<not> fallback_threw c)"
proof -
  have "alerts (copyPromptToClipboard c p) =
      [if \<not> primary_copied c \<and> fallback_threw c then copy_failed_msg else copied_msg]"
    by (cases "writeText c")
      (simp_all add: copyPromptToClipboard_def primary_copied_def alerts_fallback)
  then show ?thesis
    using copy_msgs_differ by auto
qed

theorem copy_always_notifies_witness:
  "alerts (copyPromptToClipboard
     \<lparr>hasClipboardApi = True, writeText = Rejected (plain_error ''NotAllowedError''),
      execCommand = Threw (plain_error ''SecurityError'')\<rparr> (JStr ''a prompt'')) =
     [copy_failed_msg] \<and>
   alerts (copyPromptToClipboard
     \<lparr>hasClipboardApi = False, writeText = Rejected (plain_error ''NotAllowedError''),
      execCommand = Returned True\<rparr> (JStr ''a prompt'')) =
     [copied_msg] \<and>
   alerts (copyPromptToClipboard
     \<lparr>hasClipboardApi = True, writeText = Resolved (),
      execCommand = Threw (plain_error ''SecurityError'')\<rparr> (JStr ''a prompt'')) =
     [copied_msg]"
  using
    copy_always_notifies [of
      "\<lparr>hasClipboardApi = True, writeText = Rejected (plain_error ''NotAllowedError''),
        execCommand = Threw (plain_error ''SecurityError'')\<rparr>" "JStr ''a prompt''"]
    copy_always_notifies [of
      "\<lparr>hasClipboardApi = False, writeText = Rejected (plain_error ''NotAllowedError''),
        execCommand = Returned True\<rparr>" "JStr ''a prompt''"]
    copy_always_notifies [of
      "\<lparr>hasClipboardApi = True, writeText = Resolved (),
        execCommand = Threw (plain_error ''SecurityError'')\<rparr>" "JStr ''a prompt''"]
  by (simp add: primary_copied_def fallback_threw_def)

end
